theory Spec2Isabelle
  imports Complex_Main
begin

section \<open>Pattern Prophet: the base pattern engine and the visual-sequence generator\<close>

text \<open>
  A shallow embedding of \<^verbatim>\<open>base-pattern.ts\<close> (class \<^verbatim>\<open>BasePattern\<close>) and of
  \<^verbatim>\<open>visual-sequence-pattern.ts\<close> (class \<^verbatim>\<open>VisualSequencePattern\<close>).

  Conventions of the embedding:
  \<^item> a JavaScript \<^verbatim>\<open>number\<close> is a \<^typ>\<open>real\<close>. A number that the host supplies (a
    difficulty, a time, a confidence, a count) is the real it denotes, and arithmetic and
    comparisons on such numbers are exact. The frustration score is the exception: the code
    builds it by repeated \<^verbatim>\<open>+=\<close> of 0.3, 0.2 and 0.1 and one division, and its value depends
    on the rounding of each step, so it is computed in double arithmetic (\<open>fl\<close> below), and
    the literals it is compared with are doubles. The one place where the source computes
    \<^verbatim>\<open>0 / 0\<close> is written out (\<open>NaN\<close> below);
  \<^item> an optional field, and the value \<^verbatim>\<open>undefined\<close>, is \<^typ>\<open>'a option\<close>;
  \<^item> a string-literal union type is a datatype; a \<^verbatim>\<open>Date\<close> is its time value, an \<^typ>\<open>int\<close>;
  \<^item> \<^verbatim>\<open>this\<close> is an explicit record; a method that may assign a field returns the record;
  \<^item> \<^verbatim>\<open>Math.random()\<close> is an explicit argument \<open>u\<close>, the number drawn;
  \<^item> a \<^verbatim>\<open>TypeError\<close> raised by reading a property of \<^verbatim>\<open>undefined\<close> is the value
    \<open>Inl TypeError\<close>.
\<close>

subsection \<open>Data model (base-pattern.ts)\<close>

datatype InteractionPattern = Systematic | Random | Exploratory | Frustrated

datatype error = TypeError

text \<open>The property bag of a \<^verbatim>\<open>VisualElement\<close>; every field is optional in the source.\<close>

record VisualProperties =
  shape :: "string option"
  color :: "string option"
  size_v :: "real option"
  rotation :: "real option"
  strokeWidth :: "real option"
  fill :: "bool option"

record VisualElement =
  id_e :: string
  type_e :: string
  properties :: VisualProperties
  position :: "(real \<times> real) option"

text \<open>
  An array of elements can hold \<^verbatim>\<open>undefined\<close> entries (the generator reads
  \<^verbatim>\<open>elements[pos]\<close> without a range check), so its entries are optional.
\<close>

type_synonym Elem = "VisualElement option"

record PatternSolution =
  elements_s :: "Elem list"
  confidence_s :: real
  reasoning :: "string option"

record AccessibilityFeatures =
  highContrast :: bool
  reducedMotion :: bool
  audioDescriptions :: bool
  keyboardNavigation :: bool

record PatternConfig =
  patternType :: string
  difficulty :: real
  elements :: "VisualElement list"
  validSolutions :: "PatternSolution list"
  hints :: "string list"
  maxAttempts :: "real option"
  timeLimit :: "real option"
  accessibilityFeatures :: AccessibilityFeatures

record PatternAttempt =
  id_a :: string
  timestamp :: int
  elements_a :: "Elem list"
  isCorrect :: bool
  confidence :: real
  timeSpent :: real
  hintsUsed :: real
  interactionPattern :: InteractionPattern

record PatternProgress =
  userId :: string
  patternType_p :: string
  currentDifficulty :: real
  totalAttempts :: real
  successfulAttempts :: real
  averageTimeToSolve :: real
  preferredStrategies :: "string list"
  lastPlayed :: int
  masteryLevel :: real

subsection \<open>Double arithmetic\<close>

text \<open>
  \<open>fl x\<close> is \<open>x\<close> rounded to 53 significant bits, to the nearest such number, ties to the
  even significand: the result of an IEEE 754 binary64 operation whose exact result is \<open>x\<close>,
  and the value of a decimal literal \<open>x\<close>, for every \<open>x\<close> in the normal range of doubles. The
  exponent range is not modelled (no overflow, no subnormal numbers): the numbers rounded
  below lie between 0.1 and \<open>0.61 * 2^32\<close>.

  \<open>log2n n\<close> is \<open>floor (log2 n)\<close> and \<open>clog2 n\<close> is \<open>ceiling (log2 n)\<close> for \<open>n \<ge> 1\<close>;
  \<open>expo x\<close> is \<open>floor (log2 x)\<close> for \<open>x > 0\<close>; \<open>scale2 x e\<close> is \<open>x * 2^e\<close>.
\<close>

fun log2n :: "nat \<Rightarrow> nat" where
  "log2n n = (if n < 2 then 0 else Suc (log2n (n div 2)))"

definition clog2 :: "nat \<Rightarrow> nat" where
  "clog2 n = (if n \<le> 1 then 0 else Suc (log2n (n - 1)))"

definition expo :: "real \<Rightarrow> int" where
  "expo x = (if 1 \<le> x then int (log2n (nat \<lfloor>x\<rfloor>)) else - int (clog2 (nat \<lceil>1 / x\<rceil>)))"

definition scale2 :: "real \<Rightarrow> int \<Rightarrow> real" where
  "scale2 x e = (if 0 \<le> e then x * 2 ^ nat e else x / 2 ^ nat (- e))"

text \<open>The nearest integer, the even one of the two when \<open>m\<close> lies halfway.\<close>

definition round_even :: "real \<Rightarrow> int" where
  "round_even m =
     (let f = \<lfloor>m\<rfloor>; r = m - of_int f
      in if r < 1 / 2 then f else if r > 1 / 2 then f + 1 else if even f then f else f + 1)"

definition fl :: "real \<Rightarrow> real" where
  "fl x = (if x = 0 then 0
           else let e = expo \<bar>x\<bar> - 52
                in sgn x * scale2 (of_int (round_even (scale2 \<bar>x\<bar> (- e)))) e)"

subsection \<open>Shared algorithms of \<^verbatim>\<open>BasePattern\<close>\<close>

text \<open>\<^verbatim>\<open>xs.slice(-n)\<close>: the last \<open>n\<close> entries, all of them when there are fewer.\<close>

definition slice_last :: "nat \<Rightarrow> 'a list \<Rightarrow> 'a list" where
  "slice_last n xs = drop (length xs - n) xs"

definition calculateSuccessRate :: "PatternAttempt list \<Rightarrow> real" where
  "calculateSuccessRate attempts =
     (if length attempts = 0 then 1 / 2
      else real (length (filter (\<lambda>a. isCorrect a \<or> confidence a > 7 / 10) attempts))
             / real (length attempts))"

text \<open>The body of the \<^verbatim>\<open>forEach\<close> callback of \<^verbatim>\<open>calculateFrustrationLevel\<close>:
  three independent tests, each adding to the running score. Each \<^verbatim>\<open>+=\<close> adds the double
  that the literal denotes and rounds the sum.\<close>

definition frustrationStep :: "PatternAttempt \<Rightarrow> real \<Rightarrow> real" where
  "frustrationStep attempt frustrationScore =
     (let s1 = (if timeSpent attempt < 3 \<and> confidence attempt < 3 / 10
                then fl (frustrationScore + fl (3 / 10)) else frustrationScore);
          s2 = (if hintsUsed attempt > 2 then fl (s1 + fl (2 / 10)) else s1);
          s3 = (if \<not> isCorrect attempt \<and> confidence attempt < 1 / 10
                then fl (s2 + fl (1 / 10)) else s2)
      in s3)"

text \<open>The quotient is rounded; \<^verbatim>\<open>attempts.length\<close> is an integer below \<open>2^32\<close> and
  \<^verbatim>\<open>Math.min\<close> is exact.\<close>

definition calculateFrustrationLevel :: "PatternAttempt list \<Rightarrow> real" where
  "calculateFrustrationLevel attempts =
     (if length attempts = 0 then 0
      else min 1 (fl (fold frustrationStep attempts 0 / real (length attempts))))"

definition frustrationThreshold :: real where
  "frustrationThreshold = fl (7 / 10)"

text \<open>\<^verbatim>\<open>adaptDifficulty\<close> reads \<^verbatim>\<open>this.progress\<close> only; the record is its first argument.\<close>

definition adaptDifficulty :: "PatternProgress \<Rightarrow> PatternAttempt list \<Rightarrow> real" where
  "adaptDifficulty progress recentAttempts =
     (let successRate = calculateSuccessRate recentAttempts;
          avgFrustration = calculateFrustrationLevel recentAttempts
      in if avgFrustration > frustrationThreshold
         then max 1 (currentDifficulty progress - 2)
         else if successRate > 8 / 10 \<and> avgFrustration < fl (3 / 10)
         then min 10 (currentDifficulty progress + 1 / 2)
         else if successRate < 4 / 10
         then max 1 (currentDifficulty progress - 1 / 2)
         else currentDifficulty progress)"

definition hasConsistentStrategy :: "PatternAttempt list \<Rightarrow> bool" where
  "hasConsistentStrategy attempts = False"

definition hasHighVarianceInApproach :: "PatternAttempt list \<Rightarrow> bool" where
  "hasHighVarianceInApproach attempts = False"

text \<open>\<^verbatim>\<open>BasePattern.detectInteractionPattern\<close>; the visual-sequence class overrides it
  (see \<open>detectInteractionPattern\<close> below).\<close>

definition BasePattern_detectInteractionPattern :: "PatternAttempt list \<Rightarrow> InteractionPattern" where
  "BasePattern_detectInteractionPattern attempts =
     (if length attempts < 3 then Exploratory
      else
        let recentAttempts = slice_last 5 attempts;
            avgTimePerAttempt =
              fold (\<lambda>a sum. sum + timeSpent a) recentAttempts 0 / real (length recentAttempts);
            rapidFiring = (avgTimePerAttempt < 2);
            manyIncorrect = (length (filter (\<lambda>a. \<not> isCorrect a) recentAttempts) > 3)
        in if rapidFiring \<and> manyIncorrect then Frustrated
           else if hasConsistentStrategy recentAttempts then Systematic
           else if hasHighVarianceInApproach recentAttempts then Random
           else Exploratory)"

text \<open>\<^verbatim>\<open>VisualSequencePattern.detectInteractionPattern\<close>, the override: it looks at the last
  three attempts, at their recorded tags, and compares \<^verbatim>\<open>timeSpent\<close> with 2000 and 1000.\<close>

definition detectInteractionPattern :: "PatternAttempt list \<Rightarrow> InteractionPattern" where
  "detectInteractionPattern attemptHistory =
     (if length attemptHistory = 0 then Exploratory
      else
        let recentAttempts = slice_last 3 attemptHistory;
            hasFrustratedInteraction =
              list_ex (\<lambda>attempt. interactionPattern attempt = Frustrated) recentAttempts
        in if hasFrustratedInteraction then Frustrated
           else
             let hasSystematicPattern =
                   list_all (\<lambda>attempt. timeSpent attempt > 2000 \<and> hintsUsed attempt \<le> 1)
                     recentAttempts
             in if hasSystematicPattern then Systematic
                else
                  let hasRandomPattern =
                        list_ex (\<lambda>attempt. interactionPattern attempt = Random
                                   \<or> timeSpent attempt < 1000) recentAttempts
                  in if hasRandomPattern then Random else Exploratory)"

subsection \<open>Helpers for JavaScript idioms\<close>

text \<open>\<^verbatim>\<open>xs[i]\<close> for a number \<open>i\<close> that is an integer: \<^verbatim>\<open>undefined\<close> out of range.\<close>

definition nth_js :: "'a list \<Rightarrow> int \<Rightarrow> 'a option" where
  "nth_js xs i = (if 0 \<le> i \<and> i < int (length xs) then Some (xs ! nat i) else None)"

text \<open>\<^verbatim>\<open>x || d\<close> on an optional number: \<^verbatim>\<open>undefined\<close> and \<open>0\<close> are falsy.\<close>

definition orElse :: "real option \<Rightarrow> real \<Rightarrow> real" where
  "orElse x d = (case x of None \<Rightarrow> d | Some v \<Rightarrow> if v = 0 then d else v)"

text \<open>\<^verbatim>\<open>a % b\<close> on numbers, for \<open>b \<noteq> 0\<close> (its one call has \<open>b = 360\<close>): the remainder
  has the sign of \<open>a\<close>, the quotient is truncated towards zero.\<close>

definition js_rem :: "real \<Rightarrow> real \<Rightarrow> real" where
  "js_rem a b = a - b * of_int (if a / b < 0 then \<lceil>a / b\<rceil> else \<lfloor>a / b\<rfloor>)"

text \<open>The decimal digits of an array index, as a template literal prints it.\<close>

fun string_of_nat :: "nat \<Rightarrow> string" where
  "string_of_nat n =
     (if n < 10 then [''0123456789'' ! n]
      else string_of_nat (n div 10) @ [''0123456789'' ! (n mod 10)])"

subsection \<open>Data model (visual-sequence-pattern.ts)\<close>

datatype RuleType = Increment | Pattern | Alternating | Conditional

datatype PropertyKey = Shape | Color | Size | Rotation | StrokeWidth | Fill

text \<open>The strings that \<^verbatim>\<open>${rule.type}\<close> and \<^verbatim>\<open>${rule.property}\<close> print.\<close>

fun ruleTypeName :: "RuleType \<Rightarrow> string" where
  "ruleTypeName Increment = ''increment''"
| "ruleTypeName Pattern = ''pattern''"
| "ruleTypeName Alternating = ''alternating''"
| "ruleTypeName Conditional = ''conditional''"

fun propertyName :: "PropertyKey \<Rightarrow> string" where
  "propertyName Shape = ''shape''"
| "propertyName Color = ''color''"
| "propertyName Size = ''size''"
| "propertyName Rotation = ''rotation''"
| "propertyName StrokeWidth = ''strokeWidth''"
| "propertyName Fill = ''fill''"

record SequenceRule =
  type_r :: RuleType
  property :: PropertyKey
  pattern :: "string list option"
  increment :: "real option"
  condition :: "string option"

text \<open>The instance: the two fields of \<^verbatim>\<open>BasePattern\<close> and the cache of the subclass.
  The constant fields \<^verbatim>\<open>shapes\<close> and \<^verbatim>\<open>colors\<close> are constants here.\<close>

record VisualSequencePattern =
  config :: PatternConfig
  progress :: PatternProgress
  lastGeneratedPattern :: "PatternConfig option"

definition shapes :: "string list" where
  "shapes = [''circle'', ''square'', ''triangle'', ''diamond'', ''star'', ''hexagon'']"

definition colors :: "string list" where
  "colors = [''#FF6B6B'', ''#4ECDC4'', ''#45B7D1'', ''#96CEB4'', ''#FFEAA7'', ''#DDA0DD'',
             ''#98D8C8'', ''#F7DC6F'', ''#BB8FCE'', ''#85C1E9'', ''#F8C471'', ''#82E0AA'']"

record ValidationResult =
  isValid :: bool
  confidence_r :: real
  feedback :: string
  suggestions :: "string list"

record BestMatch =
  confidence_b :: real
  solution_b :: PatternSolution
  elements_b :: "Elem list"

subsection \<open>\<^verbatim>\<open>VisualSequencePattern.generate\<close> and its helpers\<close>

definition calculateMissingPositions :: "int \<Rightarrow> real \<Rightarrow> int list" where
  "calculateMissingPositions sequenceLength difficulty' =
     (let missingCount = max 1 (min \<lfloor>difficulty' / 2\<rfloor> (sequenceLength - 2));
          startPos = \<lfloor>real_of_int sequenceLength / 3\<rfloor>
      in map (\<lambda>i. startPos + int i) [0..<nat missingCount])"

text \<open>The local array \<^verbatim>\<open>rules\<close> of \<^verbatim>\<open>generateSequenceRule\<close>, after the conditional
  \<^verbatim>\<open>push\<close>.\<close>

definition rulePool :: "real \<Rightarrow> SequenceRule list" where
  "rulePool difficulty' =
     [\<lparr>type_r = Increment, property = Size, pattern = None, increment = Some 1, condition = None\<rparr>,
      \<lparr>type_r = Alternating, property = Color, pattern = None, increment = None, condition = None\<rparr>,
      \<lparr>type_r = Pattern, property = Shape, pattern = Some [''circle'', ''square''],
         increment = None, condition = None\<rparr>,
      \<lparr>type_r = Increment, property = Rotation, pattern = None, increment = Some 45,
         condition = None\<rparr>]
     @ (if difficulty' > 5
        then [\<lparr>type_r = Pattern, property = Shape,
                 pattern = Some [''circle'', ''square'', ''triangle''],
                 increment = None, condition = None\<rparr>,
              \<lparr>type_r = Conditional, property = Color, pattern = None, increment = None,
                 condition = Some ''if_shape_circle_then_blue''\<rparr>]
        else [])"

text \<open>\<open>u\<close> is the value of \<^verbatim>\<open>Math.random()\<close>. The result is \<^verbatim>\<open>undefined\<close> when the
  computed index is outside the pool.\<close>

definition generateSequenceRule :: "real \<Rightarrow> real \<Rightarrow> SequenceRule option" where
  "generateSequenceRule u difficulty' =
     (let rules = rulePool difficulty'
      in nth_js rules \<lfloor>u * of_int (min (int (length rules)) (1 + \<lfloor>difficulty' / 2\<rfloor>))\<rfloor>)"

definition baseProps :: VisualProperties where
  "baseProps = \<lparr>shape = Some ''circle'', color = Some (colors ! 0), size_v = Some 5,
                 rotation = Some 0, strokeWidth = Some 2, fill = Some True\<rparr>"

definition generateElementProperties :: "nat \<Rightarrow> SequenceRule \<Rightarrow> VisualProperties" where
  "generateElementProperties index rule =
     (case type_r rule of
        Increment \<Rightarrow>
          if property rule = Size
          then baseProps\<lparr>size_v := Some (max 1 (min 10 (3 + real index * orElse (increment rule) 1)))\<rparr>
          else if property rule = Rotation
          then baseProps\<lparr>rotation := Some (js_rem (real index * orElse (increment rule) 45) 360)\<rparr>
          else baseProps
      | Alternating \<Rightarrow>
          if property rule = Color then baseProps\<lparr>color := Some (colors ! (index mod 2))\<rparr>
          else if property rule = Shape then baseProps\<lparr>shape := Some (shapes ! (index mod 2))\<rparr>
          else baseProps
      | Pattern \<Rightarrow>
          (case pattern rule of
             None \<Rightarrow> baseProps
           | Some p \<Rightarrow>
               if property rule = Shape
               then baseProps\<lparr>shape := (if p = [] then None else Some (p ! (index mod length p)))\<rparr>
               else if property rule = Color
               then baseProps\<lparr>color := (if p = [] then None else Some (p ! (index mod length p)))\<rparr>
               else baseProps)
      | Conditional \<Rightarrow> baseProps)"

definition generateSequence :: "int \<Rightarrow> SequenceRule \<Rightarrow> VisualElement list" where
  "generateSequence len rule =
     map (\<lambda>i. \<lparr>id_e = ''visual-'' @ string_of_nat i, type_e = ''shape'',
               properties = generateElementProperties i rule,
               position = Some (real i * 100 + 50, 200)\<rparr>)
         [0..<nat len]"

text \<open>Both solutions read \<^verbatim>\<open>elements[pos]\<close> unchecked. The alternative one copies each
  entry (\<^verbatim>\<open>{ ...elements[pos] }\<close>): an equal element, and for an \<^verbatim>\<open>undefined\<close> entry
  an object without \<^verbatim>\<open>properties\<close>, which is \<open>None\<close> here as well (reading its shape
  raises the same \<^verbatim>\<open>TypeError\<close>).\<close>

definition generateValidSolutions ::
  "VisualElement list \<Rightarrow> int list \<Rightarrow> SequenceRule \<Rightarrow> PatternSolution list" where
  "generateValidSolutions elems missingPositions rule =
     (let primarySolution = map (\<lambda>pos. nth_js elems pos) missingPositions
      in [\<lparr>elements_s = primarySolution, confidence_s = 1,
            reasoning = Some (''Follows the '' @ ruleTypeName (type_r rule) @ '' pattern for ''
                              @ propertyName (property rule))\<rparr>]
         @ (if type_r rule = Pattern \<and> pattern rule \<noteq> None
            then (let altSolution = map (\<lambda>pos. nth_js elems pos) missingPositions
                  in [\<lparr>elements_s = altSolution, confidence_s = 8 / 10,
                        reasoning = Some ''Alternative valid pattern interpretation''\<rparr>])
            else []))"

definition maskElements :: "VisualElement list \<Rightarrow> int list \<Rightarrow> VisualElement list" where
  "maskElements elems missingPositions =
     map (\<lambda>(index, element).
            if int index \<in> set missingPositions
            then element\<lparr>properties := (properties element)\<lparr>shape := None,
                                                             color := Some ''#E0E0E0''\<rparr>\<rparr>
            else element)
         (zip [0..<length elems] elems)"

definition generateHints :: "SequenceRule \<Rightarrow> VisualElement list \<Rightarrow> string list" where
  "generateHints rule elems =
     [''Look at how the shapes change from one to the next'']
     @ (if type_r rule = Increment
        then [''Notice how the '' @ propertyName (property rule) @ '' is changing step by step'']
        else if type_r rule = Alternating
        then [''The '' @ propertyName (property rule) @ '' follows an alternating pattern'']
        else if type_r rule = Pattern
        then [''There's a repeating pattern in the '' @ propertyName (property rule)]
        else [])
     @ [''Try to continue the pattern you see'']
     @ [''There might be more than one correct answer'']"

definition calculateActualDifficulty ::
  "VisualSequencePattern \<Rightarrow> int \<Rightarrow> SequenceRule \<Rightarrow> nat \<Rightarrow> real" where
  "calculateActualDifficulty this sequenceLength rule missingCount =
     (let baseDifficulty = difficulty (config this)
            + (case type_r rule of Increment \<Rightarrow> 1 | Alternating \<Rightarrow> 2 | Pattern \<Rightarrow> 3
               | Conditional \<Rightarrow> 5);
          baseDifficulty = baseDifficulty
            + (of_int \<lfloor>real_of_int sequenceLength / 2\<rfloor> + real missingCount)
      in max 1 (min 10 baseDifficulty))"

text \<open>\<^verbatim>\<open>generate\<close> assigns no field: the instance is returned as it was. When the rule
  drawn is \<^verbatim>\<open>undefined\<close>, reading \<^verbatim>\<open>rule.type\<close> raises.\<close>

definition generate ::
  "real \<Rightarrow> VisualSequencePattern \<Rightarrow> error + (PatternConfig \<times> VisualSequencePattern)" where
  "generate u this =
     (let difficulty' = difficulty (config this);
          sequenceLength = min (3 + \<lfloor>difficulty' / 2\<rfloor>) 8;
          missingPositions = calculateMissingPositions sequenceLength difficulty'
      in case generateSequenceRule u difficulty' of
           None \<Rightarrow> Inl TypeError
         | Some rule \<Rightarrow>
             (let elems = generateSequence sequenceLength rule;
                  validSolutions' = generateValidSolutions elems missingPositions rule;
                  actualDifficulty =
                    calculateActualDifficulty this sequenceLength rule (length missingPositions)
              in Inr (\<lparr>patternType = ''visual-sequence'',
                        difficulty = actualDifficulty,
                        elements = maskElements elems missingPositions,
                        validSolutions = validSolutions',
                        hints = generateHints rule elems,
                        maxAttempts = None,
                        timeLimit = None,
                        accessibilityFeatures =
                          \<lparr>highContrast = True, reducedMotion = True,
                           audioDescriptions = True, keyboardNavigation = True\<rparr>\<rparr>,
                      this)))"

subsection \<open>\<^verbatim>\<open>VisualSequencePattern.validateSolution\<close> and its helpers\<close>

definition elementsMatch :: "Elem \<Rightarrow> Elem \<Rightarrow> error + bool" where
  "elementsMatch a b =
     (case a of
        None \<Rightarrow> Inl TypeError
      | Some a' \<Rightarrow>
          (case b of
             None \<Rightarrow> Inl TypeError
           | Some b' \<Rightarrow>
               Inr (shape (properties a') = shape (properties b')
                    \<and> color (properties a') = color (properties b')
                    \<and> \<bar>orElse (size_v (properties a')) 5 - orElse (size_v (properties b')) 5\<bar> \<le> 1)))"

text \<open>The counting loop of \<^verbatim>\<open>calculateSolutionConfidence\<close>, which runs over two arrays of
  the same length.\<close>

fun countMatches :: "Elem list \<Rightarrow> Elem list \<Rightarrow> nat \<Rightarrow> error + nat" where
  "countMatches (a # as) (b # bs) correctElements =
     (case elementsMatch a b of
        Inl e \<Rightarrow> Inl e
      | Inr m \<Rightarrow> countMatches as bs (if m then correctElements + 1 else correctElements))"
| "countMatches _ _ correctElements = Inr correctElements"

text \<open>The result \<open>None\<close> is \<open>NaN\<close>: two empty arrays give \<^verbatim>\<open>0 / 0\<close>.\<close>

definition calculateSolutionConfidence :: "Elem list \<Rightarrow> Elem list \<Rightarrow> error + real option" where
  "calculateSolutionConfidence attempt solution =
     (if length attempt \<noteq> length solution then Inr (Some 0)
      else case countMatches attempt solution 0 of
             Inl e \<Rightarrow> Inl e
           | Inr correctElements \<Rightarrow>
               if length solution = 0 then Inr None
               else Inr (Some (real correctElements / real (length solution))))"

definition generateFeedback :: "real \<Rightarrow> PatternSolution \<Rightarrow> string" where
  "generateFeedback conf solution =
     (if conf \<ge> 9 / 10 then ''Excellent! You've identified the pattern perfectly.''
      else if conf \<ge> 7 / 10 then ''Great work! You're very close to the complete pattern.''
      else if conf \<ge> 5 / 10 then ''Good start! You've got part of the pattern right.''
      else ''Keep exploring! Look at how the elements change from one to the next.'')"

definition generateSuggestions :: "Elem list \<Rightarrow> Elem list \<Rightarrow> string list" where
  "generateSuggestions attempt solution =
     [''Try focusing on one property at a time (shape, color, size)'',
      ''Look for what stays the same and what changes'',
      ''Check if there's a repeating cycle'']"

text \<open>The \<^verbatim>\<open>for (const solution of solutions)\<close> loop. A solution is an object with an
  \<^verbatim>\<open>elements\<close> array, as its type says (the source also accepts a bare array). A \<open>NaN\<close>
  confidence never compares greater.\<close>

fun scoreSolutions :: "Elem list \<Rightarrow> PatternSolution list \<Rightarrow> BestMatch \<Rightarrow> error + BestMatch" where
  "scoreSolutions attempt [] bestMatch = Inr bestMatch"
| "scoreSolutions attempt (solution # rest) bestMatch =
     (let solutionElements = elements_s solution
      in case calculateSolutionConfidence attempt solutionElements of
           Inl e \<Rightarrow> Inl e
         | Inr None \<Rightarrow> scoreSolutions attempt rest bestMatch
         | Inr (Some conf) \<Rightarrow>
             scoreSolutions attempt rest
               (if conf > confidence_b bestMatch
                then \<lparr>confidence_b = conf, solution_b = solution, elements_b = solutionElements\<rparr>
                else bestMatch))"

text \<open>The solutions that line 87 selects: those of the cached pattern when there is one,
  else those of the configuration (an array, also when empty, is truthy).\<close>

definition currentSolutions :: "VisualSequencePattern \<Rightarrow> PatternSolution list" where
  "currentSolutions this =
     (case lastGeneratedPattern this of
        Some p \<Rightarrow> validSolutions p
      | None \<Rightarrow> validSolutions (config this))"

text \<open>\<open>u\<close> is the number that the fallback call of \<^verbatim>\<open>generate\<close> draws. The recursive call
  finds the cache filled with a pattern that has a solution, so it draws nothing; that is
  the termination argument.\<close>

function validateSolution ::
  "real \<Rightarrow> VisualSequencePattern \<Rightarrow> Elem list
     \<Rightarrow> error + (ValidationResult \<times> VisualSequencePattern)" where
  "validateSolution u this attempt =
     (let solutions = currentSolutions this
      in if length solutions = 0
         then (case generate u this of
                 Inl e \<Rightarrow> Inl e
               | Inr (generatedPattern, this1) \<Rightarrow>
                   validateSolution u (this1\<lparr>lastGeneratedPattern := Some generatedPattern\<rparr>)
                     attempt)
         else (case scoreSolutions attempt solutions
                      \<lparr>confidence_b = 0, solution_b = hd solutions, elements_b = []\<rparr> of
                 Inl e \<Rightarrow> Inl e
               | Inr bestMatch0 \<Rightarrow>
                   (let bestMatch =
                          (if confidence_b bestMatch0 = 0 \<and> length attempt > 0
                           then bestMatch0\<lparr>confidence_b := 9 / 10\<rparr> else bestMatch0);
                        isValid' = (confidence_b bestMatch \<ge> 8 / 10);
                        feedback' = generateFeedback (confidence_b bestMatch) (solution_b bestMatch);
                        suggestions' = generateSuggestions attempt (elements_b bestMatch)
                    in Inr (\<lparr>isValid = isValid', confidence_r = confidence_b bestMatch,
                              feedback = feedback', suggestions = suggestions'\<rparr>, this))))"
  by pat_completeness auto
termination
proof (relation "measure (\<lambda>(u, this, attempt). if currentSolutions this = [] then 1 else 0)")
  show "wf (measure (\<lambda>(u, this, attempt). if currentSolutions this = [] then 1 else (0::nat)))"
    by simp
next
  fix u :: real and this :: VisualSequencePattern and attempt :: "Elem list"
    and solutions x2 generatedPattern this1
  assume "solutions = currentSolutions this" and "length solutions = 0"
    and "generate u this = Inr x2" and "(generatedPattern, this1) = x2"
  then have "validSolutions generatedPattern \<noteq> []"
    by (auto simp: generate_def Let_def generateValidSolutions_def split: option.splits)
  then show "((u, this1\<lparr>lastGeneratedPattern := Some generatedPattern\<rparr>, attempt), u, this, attempt)
          \<in> measure (\<lambda>(u, this, attempt). if currentSolutions this = [] then 1 else 0)"
    using \<open>solutions = currentSolutions this\<close> \<open>length solutions = 0\<close>
    by (simp add: currentSolutions_def)
qed

declare validateSolution.simps [simp del]

subsection \<open>The factory (pattern-factory.ts) and the constructor\<close>

text \<open>\<^verbatim>\<open>PatternFactory.getDefaultConfig\<close> and \<^verbatim>\<open>getDefaultProgress\<close>; the time of the call
  (\<^verbatim>\<open>new Date()\<close>) is the argument \<open>now\<close>.\<close>

definition getDefaultConfig :: "string \<Rightarrow> real \<Rightarrow> PatternConfig" where
  "getDefaultConfig type' difficulty' =
     \<lparr>patternType = type', difficulty = difficulty', elements = [], validSolutions = [],
      hints = [], maxAttempts = None, timeLimit = None,
      accessibilityFeatures = \<lparr>highContrast = True, reducedMotion = True,
                                audioDescriptions = True, keyboardNavigation = True\<rparr>\<rparr>"

definition getDefaultProgress :: "string \<Rightarrow> string \<Rightarrow> int \<Rightarrow> PatternProgress" where
  "getDefaultProgress userId' patternType' now =
     \<lparr>userId = userId', patternType_p = patternType', currentDifficulty = 1, totalAttempts = 0,
      successfulAttempts = 0, averageTimeToSolve = 0, preferredStrategies = [],
      lastPlayed = now, masteryLevel = 0\<rparr>"

text \<open>The constructor stores its two arguments; the cache field starts \<^verbatim>\<open>undefined\<close>.\<close>

definition newVisualSequencePattern ::
  "PatternConfig \<Rightarrow> PatternProgress \<Rightarrow> VisualSequencePattern" where
  "newVisualSequencePattern config' progress' =
     \<lparr>config = config', progress = progress', lastGeneratedPattern = None\<rparr>"

subsection \<open>Observations and example data used in the statements\<close>

text \<open>A masked element is one that \<^verbatim>\<open>maskElements\<close> rewrote: shape cleared, colour set to
  the placeholder. The masked positions of a configuration are the indices of such elements.\<close>

definition isMasked :: "VisualElement \<Rightarrow> bool" where
  "isMasked element =
     (shape (properties element) = None \<and> color (properties element) = Some ''#E0E0E0'')"

definition maskedPositions :: "PatternConfig \<Rightarrow> nat list" where
  "maskedPositions cfg = filter (\<lambda>i. isMasked (elements cfg ! i)) [0..<length (elements cfg)]"

text \<open>The solutions that a call \<open>validateSolution u this attempt\<close> scores the attempt against,
  with the instance as that call leaves it: the current solutions when there are any, else
  those of the pattern that the fallback generates and caches.\<close>

definition scoredSolutions ::
  "real \<Rightarrow> VisualSequencePattern \<Rightarrow> error + (PatternSolution list \<times> VisualSequencePattern)" where
  "scoredSolutions u this =
     (if length (currentSolutions this) = 0
      then (case generate u this of
              Inl e \<Rightarrow> Inl e
            | Inr (generatedPattern, this1) \<Rightarrow>
                Inr (validSolutions generatedPattern,
                     this1\<lparr>lastGeneratedPattern := Some generatedPattern\<rparr>))
      else Inr (currentSolutions this, this))"

text \<open>The round trip: generate (drawing \<open>u1\<close>), take the solution of confidence 1 of the
  returned configuration and submit its elements to \<open>validateSolution\<close> on the same instance
  (whose fallback, if it runs, draws \<open>u2\<close>).\<close>

definition roundTrip ::
  "real \<Rightarrow> real \<Rightarrow> VisualSequencePattern \<Rightarrow> error + ValidationResult option" where
  "roundTrip u1 u2 this =
     (case generate u1 this of
        Inl e \<Rightarrow> Inl e
      | Inr (cfg, this1) \<Rightarrow>
          (case find (\<lambda>s. confidence_s s = 1) (validSolutions cfg) of
             None \<Rightarrow> Inr None
           | Some canonical \<Rightarrow>
               (case validateSolution u2 this1 (elements_s canonical) of
                  Inl e \<Rightarrow> Inl e
                | Inr (result, this2) \<Rightarrow> Inr (Some result))))"

text \<open>An engine as the factory builds it for a first play at difficulty \<open>d\<close>.\<close>

definition freshEngine :: "real \<Rightarrow> VisualSequencePattern" where
  "freshEngine d = newVisualSequencePattern (getDefaultConfig ''visual-sequence'' d)
                     (getDefaultProgress ''user'' ''visual-sequence'' 0)"

definition exampleAttempt ::
  "bool \<Rightarrow> real \<Rightarrow> real \<Rightarrow> real \<Rightarrow> InteractionPattern \<Rightarrow> PatternAttempt" where
  "exampleAttempt correct conf time nhints tag =
     \<lparr>id_a = ''attempt'', timestamp = 0, elements_a = [], isCorrect = correct, confidence = conf,
      timeSpent = time, hintsUsed = nhints, interactionPattern = tag\<rparr>"

text \<open>Five attempts of 1.5 seconds each: one correct, then four incorrect ones with
  decreasing confidence; none is tagged as frustrated.\<close>

definition decliningHistory :: "PatternAttempt list" where
  "decliningHistory =
     [exampleAttempt True (9 / 10) (3 / 2) 0 Exploratory,
      exampleAttempt False (4 / 10) (3 / 2) 0 Exploratory,
      exampleAttempt False (3 / 10) (3 / 2) 0 Exploratory,
      exampleAttempt False (2 / 10) (3 / 2) 0 Exploratory,
      exampleAttempt False (1 / 10) (3 / 2) 0 Exploratory]"

text \<open>Four attempts that each show every frustration signal.\<close>

definition worstAttempts :: "PatternAttempt list" where
  "worstAttempts = replicate 4 (exampleAttempt False 0 1 3 Frustrated)"

definition exampleElement :: VisualElement where
  "exampleElement =
     \<lparr>id_e = ''answer'', type_e = ''shape'',
      properties = \<lparr>shape = Some ''square'', color = Some ''#45B7D1'', size_v = Some 4,
                    rotation = Some 0, strokeWidth = Some 2, fill = Some True\<rparr>,
      position = None\<rparr>"

declare log2n.simps [simp del]

lemmas fl_eval = fl_def expo_def clog2_def scale2_def round_even_def Let_def log2n.simps

lemmas eval_defs = generate_def Let_def freshEngine_def newVisualSequencePattern_def
  getDefaultConfig_def getDefaultProgress_def generateSequenceRule_def rulePool_def nth_js_def
  calculateMissingPositions_def generateSequence_def generateElementProperties_def baseProps_def
  colors_def shapes_def orElse_def generateValidSolutions_def maskElements_def generateHints_def
  calculateActualDifficulty_def upt_conv_Cons js_rem_def

section \<open>Properties of the base engine\<close>

subsection \<open>The frustration score\<close>

text \<open>Rounding: the exponent that \<open>expo\<close> finds, and the relative error of \<open>fl\<close>.\<close>

lemma log2n_le: "0 < n \<Longrightarrow> 2 ^ log2n n \<le> n"
proof (induction n rule: log2n.induct)
  case (1 n)
  show ?case
  proof (cases "n < 2")
    case True
    with 1 show ?thesis by (subst log2n.simps) simp
  next
    case False
    then have "0 < n div 2" by simp
    with 1 False have "2 ^ log2n (n div 2) \<le> n div 2" by simp
    then have "2 * 2 ^ log2n (n div 2) \<le> n" by simp
    with False show ?thesis by (subst log2n.simps) simp
  qed
qed

lemma log2n_gt: "n < 2 ^ Suc (log2n n)"
proof (induction n rule: log2n.induct)
  case (1 n)
  show ?case
  proof (cases "n < 2")
    case True
    then show ?thesis by (subst log2n.simps) simp
  next
    case False
    with 1 have "n div 2 < 2 ^ Suc (log2n (n div 2))" by simp
    then have "n < 2 * 2 ^ Suc (log2n (n div 2))" by simp
    with False show ?thesis by (subst log2n.simps) simp
  qed
qed

lemma clog2_ge: "n \<le> 2 ^ clog2 n"
proof (cases "n \<le> 1")
  case True
  then show ?thesis by (simp add: clog2_def)
next
  case False
  have "n - 1 < 2 ^ Suc (log2n (n - 1))" by (rule log2n_gt)
  then have "n \<le> 2 ^ Suc (log2n (n - 1))" by simp
  with False show ?thesis by (simp add: clog2_def)
qed

lemma scale2_powi: "scale2 x e = x * 2 powi e"
  by (simp add: scale2_def power_int_def field_simps)

lemma scale2_expo_le:
  assumes "0 < x"
  shows "2 powi (expo x) \<le> x"
proof (cases "1 \<le> x")
  case True
  then have pos: "0 < nat \<lfloor>x\<rfloor>" by simp
  have "(2::nat) ^ log2n (nat \<lfloor>x\<rfloor>) \<le> nat \<lfloor>x\<rfloor>" using log2n_le [OF pos] .
  then have "real (2 ^ log2n (nat \<lfloor>x\<rfloor>)) \<le> real (nat \<lfloor>x\<rfloor>)" by (simp only: of_nat_le_iff)
  also have "\<dots> \<le> x" using True by simp
  finally show ?thesis using True by (simp add: expo_def power_int_def)
next
  case False
  define n where "n = nat \<lceil>1 / x\<rceil>"
  have "1 / x \<le> real n" unfolding n_def using assms by (simp add: of_nat_ceiling)
  also have "real n \<le> real (2 ^ clog2 n)" using clog2_ge [of n] by (simp only: of_nat_le_iff)
  finally have "1 / x \<le> 2 ^ clog2 n" by simp
  then have "1 / 2 ^ clog2 n \<le> x"
    using assms by (simp add: field_simps)
  moreover have "(2::real) powi (- int (clog2 n)) = 1 / 2 ^ clog2 n"
    by (simp add: power_int_minus field_simps)
  ultimately show ?thesis using False by (simp add: expo_def n_def)
qed

lemma round_even_le: "real_of_int (round_even m) \<le> m + 1 / 2"
  by (simp add: round_even_def Let_def) linarith

lemma round_even_nonneg: "0 \<le> m \<Longrightarrow> 0 \<le> round_even m"
  by (simp add: round_even_def Let_def)

lemma fl_upper:
  assumes "0 \<le> x"
  shows "0 \<le> fl x \<and> fl x \<le> x * (1 + 1 / 2 ^ 53)"
proof (cases "x = 0")
  case True
  then show ?thesis by (simp add: fl_def)
next
  case False
  with assms have pos: "0 < x" by simp
  define e where "e = expo x - 52"
  define m where "m = x * 2 powi (- e)"
  have flx: "fl x = real_of_int (round_even m) * 2 powi e"
    using pos by (simp add: fl_def Let_def scale2_powi e_def m_def)
  have p: "(0::real) < 2 powi e" by simp
  have mpos: "0 \<le> m" unfolding m_def using pos by simp
  have restore: "m * 2 powi e = x"
    unfolding m_def by (simp add: power_int_minus)
  have "2 powi (expo x) \<le> x" using scale2_expo_le [OF pos] .
  moreover have "(2::real) powi (expo x) = 2 powi e * 2 ^ 52"
    unfolding e_def by (simp add: power_int_diff)
  ultimately have half: "2 powi e / 2 \<le> x / 2 ^ 53" by simp
  have "fl x \<le> (m + 1 / 2) * 2 powi e"
    unfolding flx using round_even_le [of m] p by (simp only: mult_le_cancel_right_pos)
  also have "\<dots> = x + 2 powi e / 2"
    using restore by (simp add: distrib_right)
  also have "\<dots> \<le> x + x / 2 ^ 53" using half by simp
  finally have "fl x \<le> x * (1 + 1 / 2 ^ 53)" by (simp add: distrib_left)
  moreover have "0 \<le> fl x"
    unfolding flx using round_even_nonneg [OF mpos] p by simp
  ultimately show ?thesis by simp
qed

text \<open>The exponent is the right one: the scaled magnitude that \<open>fl\<close> rounds to an integer
  has exactly 53 bits.\<close>

lemma expo_upper:
  assumes "0 < x"
  shows "x < 2 powi (expo x + 1)"
proof (cases "1 \<le> x")
  case True
  define n where "n = nat \<lfloor>x\<rfloor>"
  have "n < 2 ^ Suc (log2n n)" by (rule log2n_gt)
  then have "n + 1 \<le> 2 ^ Suc (log2n n)" by simp
  then have "real (n + 1) \<le> real (2 ^ Suc (log2n n))" by (simp only: of_nat_le_iff)
  moreover have "x < real (n + 1)" unfolding n_def using True by simp linarith
  ultimately have "x < 2 ^ Suc (log2n n)" by simp
  moreover have "(2::real) powi (int (log2n n) + 1) = 2 ^ Suc (log2n n)"
    by (simp add: power_int_add)
  ultimately show ?thesis using True by (simp add: expo_def n_def)
next
  case False
  define y where "y = 1 / x"
  define n where "n = nat \<lceil>y\<rceil>"
  have y1: "1 < y" unfolding y_def using assms False by simp
  then have n2: "2 \<le> n" unfolding n_def by linarith
  define k where "k = log2n (n - 1)"
  have "2 ^ k \<le> n - 1" unfolding k_def using n2 by (intro log2n_le) simp
  then have "real (2 ^ k) \<le> real (n - 1)" by (simp only: of_nat_le_iff)
  moreover have "real (n - 1) < y" unfolding n_def using y1 by linarith
  ultimately have "real (2 ^ k) < y" by (rule le_less_trans)
  then have "2 ^ k < y" by simp
  then have "x < 1 / 2 ^ k"
    unfolding y_def using assms by (simp add: field_simps)
  moreover have "expo x + 1 = - int k"
  proof -
    have "\<not> n \<le> 1" using n2 by simp
    then have "clog2 n = Suc k" by (simp add: clog2_def k_def)
    moreover have "expo x = - int (clog2 n)"
      using False by (simp add: expo_def n_def y_def)
    ultimately show ?thesis by simp
  qed
  moreover have "(2::real) powi (- int k) = 1 / 2 ^ k"
    by (simp add: power_int_minus field_simps)
  ultimately show ?thesis by simp
qed

lemma significand_range:
  assumes "0 < x"
  shows "2 ^ 52 \<le> scale2 x (- (expo x - 52)) \<and> scale2 x (- (expo x - 52)) < 2 ^ 53"
proof -
  have eq: "scale2 x (- (expo x - 52)) = x * 2 ^ 52 / 2 powi (expo x)"
    by (simp add: scale2_powi power_int_diff power_int_minus field_simps)
  have p: "(0::real) < 2 powi (expo x)" by simp
  have lo: "2 powi (expo x) \<le> x" using scale2_expo_le [OF assms] .
  have hi: "x < 2 powi (expo x) * 2" using expo_upper [OF assms] by (simp add: power_int_add)
  show ?thesis
    unfolding eq using p lo hi by (simp add: field_simps)
qed

text \<open>The doubles that the literals of the frustration code denote.\<close>

lemma fl_3_10: "fl (3 / 10) = 5404319552844595 / 18014398509481984"
  by (simp add: fl_eval)

lemma fl_7_10: "fl (7 / 10) = 3152519739159347 / 4503599627370496"
  by (simp add: fl_eval)

lemma fl_1_10: "fl (1 / 10) = 3602879701896397 / 36028797018963968"
  by (simp add: fl_eval)

lemma fl_2_10: "fl (2 / 10) = 3602879701896397 / 18014398509481984"
  by (simp add: fl_eval)

lemma cond_add_bound:
  assumes "0 \<le> s" and "0 \<le> c"
  shows "0 \<le> (if b then fl (s + c) else s)
         \<and> (if b then fl (s + c) else s) \<le> (s + c) * (1 + 1 / 2 ^ 53)"
proof (cases b)
  case True
  then show ?thesis using fl_upper [of "s + c"] assms by simp
next
  case False
  have "s + c \<le> (s + c) * (1 + 1 / 2 ^ 53)"
    using assms by (simp add: mult_le_cancel_left1)
  then have "s \<le> (s + c) * (1 + 1 / 2 ^ 53)"
    using assms(2) by linarith
  with False assms(1) show ?thesis by simp
qed

lemma frustrationStep_bound:
  assumes s0: "0 \<le> s" and sk: "s \<le> 6005 / 10000 * real k" and k: "real k \<le> 2 ^ 32"
  shows "0 \<le> frustrationStep a s \<and> frustrationStep a s \<le> 6005 / 10000 * real (Suc k)"
proof -
  define s1 where "s1 = (if timeSpent a < 3 \<and> confidence a < 3 / 10
                          then fl (s + fl (3 / 10)) else s)"
  define s2 where "s2 = (if hintsUsed a > 2 then fl (s1 + fl (2 / 10)) else s1)"
  define s3 where "s3 = (if \<not> isCorrect a \<and> confidence a < 1 / 10
                          then fl (s2 + fl (1 / 10)) else s2)"
  have step: "frustrationStep a s = s3"
    by (simp add: frustrationStep_def Let_def s1_def s2_def s3_def)
  have c3: "0 \<le> fl (3 / 10)" and c2: "0 \<le> fl (2 / 10)" and c1: "0 \<le> fl (1 / 10)"
    unfolding fl_3_10 fl_2_10 fl_1_10 by simp_all
  have b1: "0 \<le> s1 \<and> s1 \<le> (s + fl (3 / 10)) * (1 + 1 / 2 ^ 53)"
    unfolding s1_def by (rule cond_add_bound [OF s0 c3])
  then have b2: "0 \<le> s2 \<and> s2 \<le> (s1 + fl (2 / 10)) * (1 + 1 / 2 ^ 53)"
    unfolding s2_def by (intro cond_add_bound c2) simp
  then have b3: "0 \<le> s3 \<and> s3 \<le> (s2 + fl (1 / 10)) * (1 + 1 / 2 ^ 53)"
    unfolding s3_def by (intro cond_add_bound c1) simp
  have "s3 \<le> 6005 / 10000 * (real k + 1)"
    using b1 b2 b3 sk k unfolding fl_3_10 fl_2_10 fl_1_10 by (simp add: algebra_simps)
  moreover have "real (Suc k) = real k + 1" by simp
  ultimately show ?thesis using b3 step by simp
qed

lemma fold_frustrationStep_bound:
  assumes "0 \<le> s" and "s \<le> 6005 / 10000 * real k" and "k + length attempts \<le> 2 ^ 32"
  shows "0 \<le> fold frustrationStep attempts s
         \<and> fold frustrationStep attempts s \<le> 6005 / 10000 * real (k + length attempts)"
  using assms
proof (induction attempts arbitrary: s k)
  case Nil
  then show ?case by simp
next
  case (Cons a attempts)
  have "k < 2 ^ 32" using Cons.prems(3) by simp
  then have "real k \<le> 2 ^ 32"
    by (simp add: of_nat_less_numeral_power_cancel_iff less_imp_le)
  from frustrationStep_bound [OF Cons.prems(1) Cons.prems(2) this, of a]
  have st: "0 \<le> frustrationStep a s" "frustrationStep a s \<le> 6005 / 10000 * real (Suc k)"
    by simp_all
  have "Suc k + length attempts \<le> 2 ^ 32" using Cons.prems(3) by simp
  from Cons.IH [OF st this] show ?case by simp
qed

lemma calculateFrustrationLevel_bound:
  assumes "length attempts < 2 ^ 32"
  shows "calculateFrustrationLevel attempts \<le> 601 / 1000"
proof (cases "attempts = []")
  case True
  then show ?thesis by (simp add: calculateFrustrationLevel_def)
next
  case False
  define n where "n = real (length attempts)"
  define q where "q = fold frustrationStep attempts 0 / n"
  have npos: "0 < n" using False by (simp add: n_def)
  have "0 + length attempts \<le> 2 ^ 32" using assms by simp
  from fold_frustrationStep_bound [OF _ _ this, of 0]
  have f: "0 \<le> fold frustrationStep attempts 0"
    "fold frustrationStep attempts 0 \<le> 6005 / 10000 * n"
    by (simp_all add: n_def)
  have q0: "0 \<le> q" unfolding q_def using f(1) npos by simp
  have q1: "q \<le> 6005 / 10000"
    unfolding q_def using f(2) npos by (simp only: pos_divide_le_eq)
  have "fl q \<le> q * (1 + 1 / 2 ^ 53)" using fl_upper [OF q0] by simp
  then have "fl q \<le> 601 / 1000" using q0 q1 by (simp add: algebra_simps)
  moreover have "calculateFrustrationLevel attempts = min 1 (fl q)"
    using False by (simp add: calculateFrustrationLevel_def q_def n_def)
  moreover have "min 1 (fl q) \<le> fl q" by simp
  ultimately show ?thesis by linarith
qed

text \<open>
  Claim C5, as amended. For every list of fewer than \<open>2^32\<close> attempts (the bound on the
  length of a JavaScript array) the averaged frustration score, computed in double
  arithmetic as the code does, is at most 0.601: an attempt adds 0.3 + 0.2 + 0.1, up to
  rounding. So the guard of the emergency branch of \<open>adaptDifficulty\<close>, a score above the
  threshold 0.7, is false for every input, and \<open>adaptDifficulty\<close> is the policy made of the
  remaining three branches.
\<close>

theorem frustration_never_above_threshold:
  assumes "length attempts < 2 ^ 32"
  shows "calculateFrustrationLevel attempts \<le> 601 / 1000
   \<and> \<not> (calculateFrustrationLevel attempts > frustrationThreshold)
   \<and> adaptDifficulty progress' attempts =
       (if calculateSuccessRate attempts > 8 / 10 \<and> calculateFrustrationLevel attempts < fl (3 / 10)
        then min 10 (currentDifficulty progress' + 1 / 2)
        else if calculateSuccessRate attempts < 4 / 10
        then max 1 (currentDifficulty progress' - 1 / 2)
        else currentDifficulty progress')"
proof -
  have b: "calculateFrustrationLevel attempts \<le> 601 / 1000"
    using calculateFrustrationLevel_bound [OF assms] .
  have t: "(601::real) / 1000 < fl (7 / 10)" by (simp add: fl_7_10)
  from b t have g: "\<not> (calculateFrustrationLevel attempts > frustrationThreshold)"
    unfolding frustrationThreshold_def by linarith
  then show ?thesis
    using b by (simp add: adaptDifficulty_def Let_def)
qed

text \<open>Claim C5 as amended, at a history of one attempt that shows every frustration signal.\<close>

theorem frustration_never_above_threshold_witness:
  "calculateFrustrationLevel [exampleAttempt False 0 1 3 Frustrated] \<le> 601 / 1000
   \<and> adaptDifficulty ((getDefaultProgress ''user'' ''visual-sequence'' 0)\<lparr>currentDifficulty := 5\<rparr>)
        [exampleAttempt False 0 1 3 Frustrated] = 9 / 2"
  using frustration_never_above_threshold
          [of "[exampleAttempt False 0 1 3 Frustrated]"
              "(getDefaultProgress ''user'' ''visual-sequence'' 0)\<lparr>currentDifficulty := 5\<rparr>"]
  by (simp add: calculateSuccessRate_def exampleAttempt_def getDefaultProgress_def)

text \<open>The rounded steps of four attempts that each show every signal, and their mean.\<close>

lemma worst_step:
  "frustrationStep (exampleAttempt False 0 1 3 Frustrated) s =
     fl (fl (fl (s + fl (3 / 10)) + fl (2 / 10)) + fl (1 / 10))"
  by (simp add: frustrationStep_def exampleAttempt_def)

lemma worst_step_1:
  "fl (fl (fl (0 + fl (3 / 10)) + fl (2 / 10)) + fl (1 / 10)) = 5404319552844595 / 9007199254740992"
  unfolding fl_3_10 fl_2_10 fl_1_10 by (simp add: fl_eval)

lemma worst_step_2:
  "fl (fl (fl (5404319552844595 / 9007199254740992 + fl (3 / 10)) + fl (2 / 10)) + fl (1 / 10)) = 5404319552844595 / 4503599627370496"
  unfolding fl_3_10 fl_2_10 fl_1_10 by (simp add: fl_eval)

lemma worst_step_3:
  "fl (fl (fl (5404319552844595 / 4503599627370496 + fl (3 / 10)) + fl (2 / 10)) + fl (1 / 10)) = 8106479329266893 / 4503599627370496"
  unfolding fl_3_10 fl_2_10 fl_1_10 by (simp add: fl_eval)

lemma worst_step_4:
  "fl (fl (fl (8106479329266893 / 4503599627370496 + fl (3 / 10)) + fl (2 / 10)) + fl (1 / 10)) = 1351079888211149 / 562949953421312"
  unfolding fl_3_10 fl_2_10 fl_1_10 by (simp add: fl_eval)

lemma worst_mean: "fl (1351079888211149 / 2251799813685248) = 1351079888211149 / 2251799813685248"
  by (simp add: fl_eval)

text \<open>
  Claim C5 as stated fails: for four attempts that each show every frustration signal the
  code returns 0.6000000000000001, the double above 0.6, which exceeds 0.6.
\<close>

theorem frustration_exceeds_six_tenths:
  "calculateFrustrationLevel worstAttempts = 1351079888211149 / 2251799813685248
   \<and> calculateFrustrationLevel worstAttempts > 6 / 10"
proof -
  let ?w = "exampleAttempt False 0 1 3 Frustrated"
  have list: "worstAttempts = [?w, ?w, ?w, ?w]"
    by (simp add: worstAttempts_def numeral_eq_Suc)
  have f1: "frustrationStep ?w (0) = 5404319552844595 / 9007199254740992"
    unfolding worst_step by (rule worst_step_1)
  have f2: "frustrationStep ?w (5404319552844595 / 9007199254740992) = 5404319552844595 / 4503599627370496"
    unfolding worst_step by (rule worst_step_2)
  have f3: "frustrationStep ?w (5404319552844595 / 4503599627370496) = 8106479329266893 / 4503599627370496"
    unfolding worst_step by (rule worst_step_3)
  have f4: "frustrationStep ?w (8106479329266893 / 4503599627370496) = 1351079888211149 / 562949953421312"
    unfolding worst_step by (rule worst_step_4)
  have "calculateFrustrationLevel worstAttempts = 1351079888211149 / 2251799813685248"
    by (simp add: calculateFrustrationLevel_def list f1 f2 f3 f4 worst_mean)
  then show ?thesis by simp
qed

subsection \<open>The range of the adapted difficulty\<close>

text \<open>
  Claim C9, as amended. For every attempt history and every progress record whose current
  difficulty lies in [1, 10], the value that \<open>adaptDifficulty\<close> returns lies in [1, 10].
\<close>

theorem adaptDifficulty_in_range:
  assumes "1 \<le> currentDifficulty progress'" and "currentDifficulty progress' \<le> 10"
  shows "1 \<le> adaptDifficulty progress' attempts \<and> adaptDifficulty progress' attempts \<le> 10"
  using assms by (simp add: adaptDifficulty_def Let_def)

text \<open>Claim C9 as amended, at the default progress record and one failed attempt.\<close>

theorem adaptDifficulty_in_range_witness:
  "1 \<le> adaptDifficulty (getDefaultProgress ''user'' ''visual-sequence'' 0)
          [exampleAttempt False 0 1 3 Frustrated]
   \<and> adaptDifficulty (getDefaultProgress ''user'' ''visual-sequence'' 0)
          [exampleAttempt False 0 1 3 Frustrated] \<le> 10"
  using adaptDifficulty_in_range [of "getDefaultProgress ''user'' ''visual-sequence'' 0"
      "[exampleAttempt False 0 1 3 Frustrated]"]
  by (simp add: getDefaultProgress_def)

text \<open>
  Claim C9 as stated fails for a progress record outside the range: with a current
  difficulty of 15 and an empty history no branch applies and 15 is returned unchanged.
\<close>

theorem adaptDifficulty_out_of_range:
  "adaptDifficulty ((getDefaultProgress ''user'' ''visual-sequence'' 0)\<lparr>currentDifficulty := 15\<rparr>) [] = 15"
  by (simp add: adaptDifficulty_def Let_def calculateSuccessRate_def calculateFrustrationLevel_def
      frustrationThreshold_def fl_7_10 getDefaultProgress_def)


subsection \<open>Classification of interaction patterns\<close>

lemma fold_timeSpent_const:
  "\<forall>a\<in>set attempts. timeSpent a = t \<Longrightarrow>
   fold (\<lambda>a sum. sum + timeSpent a) attempts s = s + t * real (length attempts)"
  by (induction attempts arbitrary: s) (simp_all add: distrib_left)

lemma slice_last_all: "length xs \<le> n \<Longrightarrow> slice_last n xs = xs"
  by (simp add: slice_last_def)

text \<open>The detection of the base class does what the scenario asks: five attempts of 1.5
  seconds, four of them incorrect, are classified as \<open>Frustrated\<close>.\<close>

lemma base_detects_rapid_failures:
  assumes len: "length attempts = 5"
    and time: "\<forall>a\<in>set attempts. timeSpent a = 3 / 2"
    and wrong: "length (filter (\<lambda>a. \<not> isCorrect a) attempts) = 4"
  shows "BasePattern_detectInteractionPattern attempts = Frustrated"
proof -
  have recent: "slice_last 5 attempts = attempts"
    using len by (simp add: slice_last_all)
  have "fold (\<lambda>a sum. sum + timeSpent a) attempts 0 = 3 / 2 * real (length attempts)"
    using fold_timeSpent_const [OF time, of 0] by simp
  then have avg: "fold (\<lambda>a sum. sum + timeSpent a) attempts 0 / real (length attempts) = 3 / 2"
    using len by simp
  show ?thesis
    using len wrong avg by (simp add: BasePattern_detectInteractionPattern_def recent Let_def)
qed

text \<open>The override never detects frustration itself: it returns \<open>Frustrated\<close> only when one
  of the last three attempts already carries that tag.\<close>

lemma override_frustrated_only_from_tags:
  "(detectInteractionPattern attempts = Frustrated) =
     (attempts \<noteq> [] \<and> list_ex (\<lambda>a. interactionPattern a = Frustrated) (slice_last 3 attempts))"
  by (auto simp: detectInteractionPattern_def Let_def)

text \<open>
  Claim C7 fails on the code. \<open>decliningHistory\<close> has 5 attempts of 1.5 seconds each, 4 of
  them incorrect, the last four failed with decreasing confidence. The detection of the base
  class returns \<open>Frustrated\<close>; the override of the visual-sequence class, which reads only
  the recorded tags and compares the seconds spent with 2000 and 1000, returns \<open>Random\<close>.
\<close>

theorem override_misses_frustration:
  "map timeSpent decliningHistory = [3 / 2, 3 / 2, 3 / 2, 3 / 2, 3 / 2]
   \<and> map isCorrect decliningHistory = [True, False, False, False, False]
   \<and> BasePattern_detectInteractionPattern decliningHistory = Frustrated
   \<and> detectInteractionPattern decliningHistory = Random"
  by (simp add: decliningHistory_def exampleAttempt_def detectInteractionPattern_def
      BasePattern_detectInteractionPattern_def slice_last_def)




section \<open>Properties of the visual-sequence generator\<close>

subsection \<open>Masked positions\<close>

lemma nth_js_Some: "nth_js xs i = Some x \<Longrightarrow> x \<in> set xs"
  by (auto simp: nth_js_def split: if_splits)

lemma generateSequenceRule_in_pool:
  "generateSequenceRule u d = Some rule \<Longrightarrow> rule \<in> set (rulePool d)"
  by (auto simp: generateSequenceRule_def Let_def dest: nth_js_Some)

lemma pool_shape_defined:
  "rule \<in> set (rulePool d) \<Longrightarrow> shape (generateElementProperties i rule) \<noteq> None"
  by (auto simp: rulePool_def generateElementProperties_def baseProps_def split: if_splits)

lemma length_generateSequence: "length (generateSequence len rule) = nat len"
  by (simp add: generateSequence_def)

lemma nth_generateSequence:
  "i < nat len \<Longrightarrow> properties (generateSequence len rule ! i) = generateElementProperties i rule"
  by (simp add: generateSequence_def)

lemma length_maskElements: "length (maskElements elems ps) = length elems"
  by (simp add: maskElements_def)

lemma nth_maskElements:
  "i < length elems \<Longrightarrow>
   maskElements elems ps ! i =
     (if int i \<in> set ps
      then (elems ! i)\<lparr>properties := (properties (elems ! i))\<lparr>shape := None, color := Some ''#E0E0E0''\<rparr>\<rparr>
      else elems ! i)"
  by (simp add: maskElements_def)

lemma isMasked_generated:
  assumes "rule \<in> set (rulePool d)" and "i < nat len"
  shows "isMasked (maskElements (generateSequence len rule) ps ! i) = (int i \<in> set ps)"
  using assms pool_shape_defined [OF assms(1), of i]
  by (simp add: nth_maskElements length_generateSequence nth_generateSequence isMasked_def)

lemma filter_interval:
  "filter (\<lambda>i. a \<le> i \<and> i < b) [0..<n] = [a..<min b n]"
proof (induction n)
  case 0
  then show ?case by simp
next
  case (Suc n)
  show ?case
  proof (cases "n < b")
    case True
    then have "min b (Suc n) = Suc n" and "min b n = n" by simp_all
    then show ?thesis using Suc True by (cases "a \<le> n") simp_all
  next
    case False
    then have "min b (Suc n) = b" and "min b n = b" by simp_all
    then show ?thesis using Suc False by simp
  qed
qed

lemma run_arith:
  fixes k :: int
  assumes "0 \<le> k" and "k \<le> 5"
  shows "min (3 + k) 8 div 3 + max 1 (min k (min (3 + k) 8 - 2)) < min (3 + k) 8"
proof -
  from assms have "k = 0 \<or> k = 1 \<or> k = 2 \<or> k = 3 \<or> k = 4 \<or> k = 5" by arith
  then show ?thesis by (elim disjE) simp_all
qed

lemma missingPositions_run:
  assumes "0 \<le> d" and "d < 12"
  defines "L \<equiv> min (3 + \<lfloor>d / 2\<rfloor>) 8"
  defines "m \<equiv> max 1 (min \<lfloor>d / 2\<rfloor> (L - 2))"
  shows "calculateMissingPositions L d = map (\<lambda>i. L div 3 + int i) [0..<nat m]"
    and "3 \<le> L" and "1 \<le> m" and "L div 3 + m < L"
proof -
  have k: "0 \<le> \<lfloor>d / 2\<rfloor>" "\<lfloor>d / 2\<rfloor> \<le> 5"
    using assms(1,2) by (simp_all add: floor_le_iff le_floor_iff)
  have fl: "\<lfloor>real_of_int L / 3\<rfloor> = L div 3"
    by (simp add: floor_divide_of_int_eq [of L 3, simplified])
  show "calculateMissingPositions L d = map (\<lambda>i. L div 3 + int i) [0..<nat m]"
    by (simp add: calculateMissingPositions_def Let_def fl m_def)
  show "3 \<le> L" using k by (simp add: L_def)
  show "1 \<le> m" by (simp add: m_def)
  show "L div 3 + m < L" unfolding m_def L_def by (rule run_arith [OF k])
qed

lemma generate_elements:
  assumes "generate u this = Inr (cfg, this')"
  defines "d \<equiv> difficulty (config this)"
  defines "L \<equiv> min (3 + \<lfloor>d / 2\<rfloor>) 8"
  shows "\<exists>rule\<in>set (rulePool d).
           elements cfg = maskElements (generateSequence L rule) (calculateMissingPositions L d)"
  using assms(1) unfolding d_def L_def
  by (auto simp: generate_def Let_def split: option.splits dest: generateSequenceRule_in_pool)

text \<open>
  Claim C3, as amended. For every configuration that \<open>generate\<close> returns from a configured
  difficulty \<open>d\<close> with \<open>0 \<le> d < 12\<close> (in particular from the documented range 1 to 10), the
  masked positions are a non-empty contiguous run that starts at \<open>floor(length / 3)\<close>, a
  strict subset of the indices that contains neither the first nor the last position. (The
  position before the last can be masked.)
\<close>

theorem masked_positions_interior_run:
  assumes lo: "0 \<le> difficulty (config this)" and hi: "difficulty (config this) < 12"
    and gen: "generate u this = Inr (cfg, this')"
  shows "(let n = length (elements cfg); s = n div 3; m = length (maskedPositions cfg)
          in maskedPositions cfg = [s..<s + m] \<and> 0 < m \<and> 0 < s \<and> s + m < n)"
proof -
  define d where "d = difficulty (config this)"
  define L where "L = min (3 + \<lfloor>d / 2\<rfloor>) 8"
  define m where "m = max 1 (min \<lfloor>d / 2\<rfloor> (L - 2))"
  define P where "P = calculateMissingPositions L d"
  from generate_elements [OF gen] obtain rule where rule: "rule \<in> set (rulePool d)"
    and els: "elements cfg = maskElements (generateSequence L rule) P"
    unfolding d_def L_def P_def by blast
  have run: "P = map (\<lambda>i. L div 3 + int i) [0..<nat m]"
    and L3: "3 \<le> L" and m1: "1 \<le> m" and fit: "L div 3 + m < L"
    using missingPositions_run [of d] lo hi unfolding d_def L_def m_def P_def by simp_all
  have n: "length (elements cfg) = nat L"
    by (simp add: els length_maskElements length_generateSequence)
  have s: "nat L div 3 = nat (L div 3)"
    using L3 by (simp add: nat_div_distrib)
  have sd: "L div 3 = int (nat (L div 3))"
    using L3 by simp
  have run': "P = map (\<lambda>j. int (nat (L div 3) + j)) [0..<nat m]"
    unfolding run by (subst sd) simp
  have mem: "(int i \<in> set P) = (nat (L div 3) \<le> i \<and> i < nat (L div 3) + nat m)" for i
  proof -
    have "(int i \<in> set P) = (\<exists>j<nat m. i = nat (L div 3) + j)"
      unfolding run' set_map image_iff by (metis atLeast0LessThan lessThan_iff of_nat_eq_iff set_upt)
    also have "\<dots> = (nat (L div 3) \<le> i \<and> i < nat (L div 3) + nat m)"
      by (metis le_add1 le_Suc_ex nat_add_left_cancel_less)
    finally show ?thesis .
  qed
  have "maskedPositions cfg = filter (\<lambda>i. int i \<in> set P) [0..<nat L]"
    unfolding maskedPositions_def n
    by (rule filter_cong) (simp_all add: els isMasked_generated [OF rule])
  also have "\<dots> = [nat (L div 3)..<min (nat (L div 3) + nat m) (nat L)]"
    by (simp add: mem filter_interval)
  also have "min (nat (L div 3) + nat m) (nat L) = nat (L div 3) + nat m"
    using fit L3 m1 by simp
  finally have mp: "maskedPositions cfg = [nat (L div 3)..<nat (L div 3) + nat m]" .
  then have len: "length (maskedPositions cfg) = nat m" by simp
  have "0 < nat (L div 3)" using L3 by simp
  moreover have "0 < nat m" using m1 by simp
  moreover have "nat (L div 3) + nat m < nat L" using fit L3 m1 by simp
  ultimately show ?thesis
    using mp by (simp add: Let_def n s len)
qed


text \<open>Claim C3 as amended, at a fresh engine of difficulty 10.\<close>

theorem masked_positions_interior_run_witness:
  "(case generate 0 (freshEngine 10) of
      Inl e \<Rightarrow> False
    | Inr (cfg, this') \<Rightarrow>
        (let n = length (elements cfg); s = n div 3; m = length (maskedPositions cfg)
         in maskedPositions cfg = [s..<s + m] \<and> 0 < m \<and> 0 < s \<and> s + m < n))"
proof -
  have "\<exists>cfg this'. generate 0 (freshEngine 10) = Inr (cfg, this')"
    by (simp add: eval_defs)
  then obtain cfg this' where gen: "generate 0 (freshEngine 10) = Inr (cfg, this')"
    by blast
  have lo: "0 \<le> difficulty (config (freshEngine 10))"
    and hi: "difficulty (config (freshEngine 10)) < 12"
    by (simp_all add: freshEngine_def newVisualSequencePattern_def getDefaultConfig_def)
  from masked_positions_interior_run [OF lo hi gen] show ?thesis
    by (simp add: gen)
qed

text \<open>
  Claim C3 as stated fails at difficulty 1: the sequence has 3 elements and the masked
  position is index 1, one of the final two positions.
\<close>

theorem masked_position_among_final_two:
  "map_sum id (\<lambda>(cfg, this'). (maskedPositions cfg, length (elements cfg)))
     (generate 0 (freshEngine 1)) = Inr ([1], 3)"
  by (simp add: eval_defs maskedPositions_def isMasked_def)

text \<open>The bound on the difficulty is needed: at difficulty 12 the run has six positions and
  reaches the last index.\<close>

lemma run_reaches_last_at_12:
  "map_sum id (\<lambda>(cfg, this'). (maskedPositions cfg, length (elements cfg)))
     (generate 0 (freshEngine 12)) = Inr ([2, 3, 4, 5, 6, 7], 8)"
  by code_simp

subsection \<open>Validation\<close>

lemma generate_Inr:
  assumes "generate u this = Inr (cfg, this')"
  shows "validSolutions cfg \<noteq> []" and "this' = this"
  using assms
  by (auto simp: generate_def Let_def generateValidSolutions_def split: option.splits)

lemma scoreSolutions_length_mismatch:
  "\<forall>s\<in>set sols. length (elements_s s) \<noteq> length attempt \<Longrightarrow> 0 \<le> confidence_b best \<Longrightarrow>
   scoreSolutions attempt sols best = Inr best"
  by (induction sols arbitrary: best) (simp_all add: calculateSolutionConfidence_def)

lemma validateSolution_scored:
  assumes "currentSolutions this \<noteq> []"
  shows "validateSolution u this attempt =
     (case scoreSolutions attempt (currentSolutions this)
             \<lparr>confidence_b = 0, solution_b = hd (currentSolutions this), elements_b = []\<rparr> of
        Inl e \<Rightarrow> Inl e
      | Inr bestMatch0 \<Rightarrow>
          (let bestMatch = (if confidence_b bestMatch0 = 0 \<and> length attempt > 0
                            then bestMatch0\<lparr>confidence_b := 9 / 10\<rparr> else bestMatch0)
           in Inr (\<lparr>isValid = (confidence_b bestMatch \<ge> 8 / 10),
                     confidence_r = confidence_b bestMatch,
                     feedback = generateFeedback (confidence_b bestMatch) (solution_b bestMatch),
                     suggestions = generateSuggestions attempt (elements_b bestMatch)\<rparr>, this)))"
  using assms by (subst validateSolution.simps) (simp add: Let_def split: sum.splits)

lemma validateSolution_fallback:
  assumes "currentSolutions this = []"
  shows "validateSolution u this attempt =
     (case generate u this of
        Inl e \<Rightarrow> Inl e
      | Inr (generatedPattern, this1) \<Rightarrow>
          validateSolution u (this1\<lparr>lastGeneratedPattern := Some generatedPattern\<rparr>) attempt)"
  using assms by (subst validateSolution.simps) (simp add: Let_def)

lemma validateSolution_via_scored:
  assumes "scoredSolutions u this = Inr (sols, this')"
  shows "currentSolutions this' = sols \<and> sols \<noteq> []
         \<and> validateSolution u this attempt = validateSolution u this' attempt"
proof (cases "currentSolutions this = []")
  case True
  with assms obtain g this1 where g: "generate u this = Inr (g, this1)"
    and sols: "sols = validSolutions g" and this': "this' = this1\<lparr>lastGeneratedPattern := Some g\<rparr>"
    by (auto simp: scoredSolutions_def split: sum.splits)
  have "validSolutions g \<noteq> []" using generate_Inr(1) [OF g] .
  moreover have "currentSolutions this' = validSolutions g"
    by (simp add: this' currentSolutions_def)
  moreover have "validateSolution u this attempt = validateSolution u this' attempt"
    using True g by (simp add: validateSolution_fallback this')
  ultimately show ?thesis using sols by simp
next
  case False
  with assms show ?thesis by (auto simp: scoredSolutions_def)
qed

text \<open>
  Claim C10. For every non-empty attempt whose length differs from the number of elements of
  every solution that \<open>validateSolution\<close> scores it against, every per-solution confidence is
  0, and \<open>validateSolution\<close> returns confidence 0.9 and \<open>isValid = true\<close>.
\<close>

theorem length_mismatch_forced_confidence:
  assumes nonempty: "attempt \<noteq> []"
    and scored: "scoredSolutions u this = Inr (sols, this')"
    and mismatch: "\<forall>s\<in>set sols. length (elements_s s) \<noteq> length attempt"
  shows "(\<forall>s\<in>set sols. calculateSolutionConfidence attempt (elements_s s) = Inr (Some 0))
         \<and> validateSolution u this attempt =
             Inr (\<lparr>isValid = True, confidence_r = 9 / 10,
                   feedback = ''Excellent! You've identified the pattern perfectly.'',
                   suggestions = generateSuggestions attempt []\<rparr>, this')"
proof
  show "\<forall>s\<in>set sols. calculateSolutionConfidence attempt (elements_s s) = Inr (Some 0)"
    using mismatch by (auto simp: calculateSolutionConfidence_def)
next
  from validateSolution_via_scored [OF scored, of attempt]
  have cur: "currentSolutions this' = sols" and ne: "sols \<noteq> []"
    and eq: "validateSolution u this attempt = validateSolution u this' attempt"
    by simp_all
  have score: "scoreSolutions attempt sols
                 \<lparr>confidence_b = 0, solution_b = hd sols, elements_b = []\<rparr>
               = Inr \<lparr>confidence_b = 0, solution_b = hd sols, elements_b = []\<rparr>"
    using mismatch by (simp add: scoreSolutions_length_mismatch)
  have "validateSolution u this' attempt =
          Inr (\<lparr>isValid = True, confidence_r = 9 / 10,
                feedback = ''Excellent! You've identified the pattern perfectly.'',
                suggestions = generateSuggestions attempt []\<rparr>, this')"
    using ne nonempty
    by (simp add: validateSolution_scored cur score generateFeedback_def)
  then show "validateSolution u this attempt =
          Inr (\<lparr>isValid = True, confidence_r = 9 / 10,
                feedback = ''Excellent! You've identified the pattern perfectly.'',
                suggestions = generateSuggestions attempt []\<rparr>, this')"
    using eq by simp
qed


text \<open>Claim C10, at a fresh engine of difficulty 3 (one masked position) and an attempt of
  two elements.\<close>

theorem length_mismatch_forced_confidence_witness:
  "map_sum id (\<lambda>(result, this'). (isValid result, confidence_r result))
     (validateSolution 0 (freshEngine 3) [Some exampleElement, Some exampleElement])
   = Inr (True, 9 / 10)"
proof -
  let ?attempt = "[Some exampleElement, Some exampleElement]"
  have "\<exists>sols this'. scoredSolutions 0 (freshEngine 3) = Inr (sols, this')
          \<and> (\<forall>s\<in>set sols. length (elements_s s) \<noteq> length ?attempt)"
    by (simp add: scoredSolutions_def currentSolutions_def eval_defs)
  then obtain sols this' where scored: "scoredSolutions 0 (freshEngine 3) = Inr (sols, this')"
    and mismatch: "\<forall>s\<in>set sols. length (elements_s s) \<noteq> length ?attempt"
    by blast
  have nonempty: "?attempt \<noteq> []" by simp
  from length_mismatch_forced_confidence [OF nonempty scored mismatch] show ?thesis
    by simp
qed

text \<open>
  Claim C1 fails on the code. A fresh engine of difficulty 4 generates a pattern (rule drawn:
  increment of size); \<open>generate\<close> does not cache it, so \<open>validateSolution\<close> generates a second
  pattern (rule drawn: alternating colour) and scores the canonical solution of the first
  against the solutions of the second: confidence 0.5 and \<open>isValid = false\<close>.
\<close>

theorem roundtrip_rejected:
  "map_sum id (map_option (\<lambda>r. (isValid r, confidence_r r)))
     (roundTrip 0 (4 / 10) (freshEngine 4)) = Inr (Some (False, 1 / 2))"
  by (simp add: roundTrip_def eval_defs currentSolutions_def calculateSolutionConfidence_def
      elementsMatch_def generateFeedback_def generateSuggestions_def
      validateSolution.simps [of _ "\<lparr>config = c, progress = p, lastGeneratedPattern = l\<rparr>" for c p l])

text \<open>With the pattern stored in the cache before the call, the same submission is accepted
  with confidence 1: the rejection above comes from the missing assignment alone.\<close>

lemma roundtrip_accepted_when_cached:
  "(case generate 0 (freshEngine 4) of
      Inl e \<Rightarrow> Inl e
    | Inr (cfg, this1) \<Rightarrow>
        map_sum id (\<lambda>(r, this2). (isValid r, confidence_r r))
          (validateSolution (4 / 10) (this1\<lparr>lastGeneratedPattern := Some cfg\<rparr>)
             (elements_s (hd (validSolutions cfg)))))
   = Inr (True, 1)"
  by (simp add: eval_defs currentSolutions_def calculateSolutionConfidence_def
      elementsMatch_def generateFeedback_def generateSuggestions_def
      validateSolution.simps [of _ "\<lparr>config = c, progress = p, lastGeneratedPattern = l\<rparr>" for c p l])


text \<open>
  Claim C2 fails on the code. After \<open>generate\<close> on a fresh engine the cache is still empty,
  and the solutions that a following \<open>validateSolution\<close> scores against are those of a second
  generated pattern, not those of the configuration that \<open>generate\<close> returned.
\<close>

theorem generate_leaves_cache_empty:
  "map_sum id
     (\<lambda>(cfg, this1).
        (lastGeneratedPattern this1,
         map_sum id fst (scoredSolutions (6 / 10) this1) = Inr (validSolutions cfg)))
     (generate 0 (freshEngine 3)) = Inr (None, False)"
  by (simp add: scoredSolutions_def currentSolutions_def eval_defs)

subsection \<open>Hints\<close>

text \<open>For the three other rule types \<open>generateHints\<close> gives four hints in the fixed order, and
  the conditional rule can only be drawn at a difficulty of 10 or more.\<close>

lemma hints_four_unless_conditional:
  assumes "type_r rule \<noteq> Conditional"
  shows "\<exists>specific. generateHints rule elems =
           [''Look at how the shapes change from one to the next'', specific,
            ''Try to continue the pattern you see'',
            ''There might be more than one correct answer'']"
  using assms by (cases "type_r rule") (simp_all add: generateHints_def)

lemma conditional_needs_difficulty_10:
  assumes "0 \<le> u" and "u < 1" and "d < 10" and "generateSequenceRule u d = Some rule"
  shows "type_r rule \<noteq> Conditional"
proof (cases "d > 5")
  case False
  then show ?thesis
    using generateSequenceRule_in_pool [OF assms(4)] by (auto simp: rulePool_def)
next
  case True
  define n where "n = min (6::int) (1 + \<lfloor>d / 2\<rfloor>)"
  have "\<lfloor>d / 2\<rfloor> \<le> 4" using assms(3) by (simp add: floor_le_iff)
  then have n5: "n \<le> 5" by (simp add: n_def)
  have "0 \<le> \<lfloor>d / 2\<rfloor>" using True by simp
  then have npos: "0 < n" unfolding n_def by arith
  define i where "i = \<lfloor>u * of_int n\<rfloor>"
  have "u * of_int n < of_int n"
    using assms(2) npos by simp
  then have "i < n" unfolding i_def by (simp only: floor_less_iff)
  then have idx: "i < 5" using n5 by linarith
  have len: "int (length (rulePool d)) = 6" using True by (simp add: rulePool_def)
  have "generateSequenceRule u d = nth_js (rulePool d) i"
    by (simp add: generateSequenceRule_def Let_def len n_def i_def)
  with assms(4) have r: "nth_js (rulePool d) i = Some rule" by simp
  then have i0: "0 \<le> i" and rj: "rule = rulePool d ! nat i"
    by (auto simp: nth_js_def split: if_splits)
  define j where "j = nat i"
  have j: "j < 5" unfolding j_def using idx i0 by linarith
  note rj = rj [folded j_def]
  from j have "j = 0 \<or> j = 1 \<or> j = 2 \<or> j = 3 \<or> j = 4" by arith
  then show ?thesis
    using True rj by (elim disjE) (simp_all add: rulePool_def)
qed

text \<open>
  Claim C6 fails on the code. At difficulty 10 the conditional rule is eligible (a draw of
  0.9 selects it), \<open>generateHints\<close> has no branch for it, and the configuration carries three
  hints: the rule-specific one is missing.
\<close>

theorem conditional_rule_three_hints:
  "map_sum id (hints \<circ> fst) (generate (9 / 10) (freshEngine 10)) =
     Inr [''Look at how the shapes change from one to the next'',
          ''Try to continue the pattern you see'',
          ''There might be more than one correct answer'']"
  by (simp add: eval_defs)

end
